theory Spec2Isabelle
  imports Main "HOL-Library.AList" "HOL-Library.Char_ord" "HOL-Library.List_Lexorder"
    "HOL-Library.Word"
begin

section \<open>Constants of the package\<close>

definition NVP_SANDBOX_URL :: string where
  "NVP_SANDBOX_URL = ''https://api-3t.sandbox.paypal.com/nvp''"

definition NVP_PRODUCTION_URL :: string where
  "NVP_PRODUCTION_URL = ''https://api-3t.paypal.com/nvp''"

definition CHECKOUT_SANDBOX_URL :: string where
  "CHECKOUT_SANDBOX_URL = ''https://www.sandbox.paypal.com/cgi-bin/webscr''"

definition CHECKOUT_PRODUCTION_URL :: string where
  "CHECKOUT_PRODUCTION_URL = ''https://www.paypal.com/cgi-bin/webscr''"

definition NVP_VERSION :: string where
  "NVP_VERSION = ''84''"

section \<open>The error value and its rendering\<close>

text \<open>
  A Go string is a sequence of bytes and \<open>len\<close> counts bytes, so a string is a
  \<^typ>\<open>char list\<close> and \<open>len(s) != 0\<close> is \<open>s \<noteq> []\<close>.
\<close>

record PayPalError =
  Ack :: string
  ErrorCode :: string
  ShortMessage :: string
  LongMessage :: string
  SeverityCode :: string

definition maintenance_message :: string where
  "maintenance_message =
     ''PayPal is undergoing maintenance.'' @ [CHR 0x0A] @ ''Please try again later.''"

definition Error :: "PayPalError \<Rightarrow> string" where
  "Error e =
     (if ErrorCode e \<noteq> [] \<and> ShortMessage e \<noteq> []
      then ''PayPal Error '' @ ErrorCode e @ '': '' @ ShortMessage e
      else if Ack e \<noteq> [] then Ack e
      else maintenance_message)"

section \<open>The multimap \<open>url.Values\<close> of the standard library\<close>

text \<open>
  \<open>url.Values\<close> is \<open>map[string][]string\<close>: every key occurs once and carries the
  list of its values. It is modelled as an association list with one entry per key.
  The position of an entry in the list is not observable in Go; \<open>Encode\<close> sorts the
  keys. A nil map reads as the empty one; an assignment to an entry of a nil map
  panics, which \<open>PerformRequest_call\<close> below models.
\<close>

type_synonym Values = "(string \<times> string list) list"

definition values_of :: "Values \<Rightarrow> string \<Rightarrow> string list" where
  \<comment> \<open>the Go expression \<open>v[key]\<close>: the nil slice for a missing key\<close>
  "values_of v key = (case map_of v key of None \<Rightarrow> [] | Some vs \<Rightarrow> vs)"

definition Get :: "Values \<Rightarrow> string \<Rightarrow> string" where
  "Get v key = (case values_of v key of [] \<Rightarrow> [] | x # _ \<Rightarrow> x)"

definition Set :: "Values \<Rightarrow> string \<Rightarrow> string \<Rightarrow> Values" where
  "Set v key val = AList.update key [val] v"

definition Add :: "Values \<Rightarrow> string \<Rightarrow> string \<Rightarrow> Values" where
  "Add v key val = AList.update key (values_of v key @ [val]) v"

subsection \<open>\<open>url.QueryEscape\<close> and \<open>Values.Encode\<close>\<close>

definition isalnum :: "char \<Rightarrow> bool" where
  "isalnum c \<longleftrightarrow> (CHR ''a'' \<le> c \<and> c \<le> CHR ''z'') \<or> (CHR ''A'' \<le> c \<and> c \<le> CHR ''Z'')
     \<or> (CHR ''0'' \<le> c \<and> c \<le> CHR ''9'')"

definition shouldEscape :: "char \<Rightarrow> bool" where
  \<comment> \<open>\<open>shouldEscape(c, encodeQueryComponent)\<close>: only the unreserved bytes are kept\<close>
  "shouldEscape c \<longleftrightarrow> \<not> (isalnum c \<or> c \<in> {CHR ''-'', CHR ''_'', CHR ''.'', CHR ''~''})"

definition upperhex :: "nat \<Rightarrow> char" where
  "upperhex n = ''0123456789ABCDEF'' ! (n mod 16)"

fun QueryEscape :: "string \<Rightarrow> string" where
  "QueryEscape [] = []"
| "QueryEscape (c # s) =
     (if c = CHR '' '' then CHR ''+'' # QueryEscape s
      else if shouldEscape c
      then CHR ''%'' # upperhex (of_char c div 16) # upperhex (of_char c mod 16) # QueryEscape s
      else c # QueryEscape s)"

fun join_amp :: "string list \<Rightarrow> string" where
  "join_amp [] = []"
| "join_amp [x] = x"
| "join_amp (x # y # ys) = x @ CHR ''&'' # join_amp (y # ys)"

definition Encode :: "Values \<Rightarrow> string" where
  "Encode v =
     join_amp (concat (map (\<lambda>k. map (\<lambda>x. QueryEscape k @ CHR ''='' # QueryEscape x) (values_of v k))
                           (sort (map fst v))))"

subsection \<open>\<open>url.QueryUnescape\<close> and \<open>url.ParseQuery\<close>\<close>

datatype go_error =
    TransportError string
  | EscapeError string
  | InvalidSemicolon
  | RemoteError PayPalError

definition ishex :: "char \<Rightarrow> bool" where
  "ishex c \<longleftrightarrow> (CHR ''0'' \<le> c \<and> c \<le> CHR ''9'') \<or> (CHR ''a'' \<le> c \<and> c \<le> CHR ''f'')
     \<or> (CHR ''A'' \<le> c \<and> c \<le> CHR ''F'')"

definition unhex :: "char \<Rightarrow> nat" where
  "unhex c =
     (if CHR ''0'' \<le> c \<and> c \<le> CHR ''9'' then of_char c - 48
      else if CHR ''a'' \<le> c \<and> c \<le> CHR ''f'' then of_char c - 97 + 10
      else if CHR ''A'' \<le> c \<and> c \<le> CHR ''F'' then of_char c - 65 + 10
      else 0)"

fun QueryUnescape :: "string \<Rightarrow> go_error + string" where
  "QueryUnescape [] = Inr []"
| "QueryUnescape (c # s) =
     (if c = CHR ''%'' then
        (case s of
           h1 # h2 # rest \<Rightarrow>
             if ishex h1 \<and> ishex h2
             then (case QueryUnescape rest of
                     Inl e \<Rightarrow> Inl e
                   | Inr t \<Rightarrow> Inr (char_of (unhex h1 * 16 + unhex h2) # t))
             else Inl (EscapeError (take 3 (c # s)))
         | _ \<Rightarrow> Inl (EscapeError (take 3 (c # s))))
      else (case QueryUnescape s of
              Inl e \<Rightarrow> Inl e
            | Inr t \<Rightarrow> Inr ((if c = CHR ''+'' then CHR '' '' else c) # t)))"

definition cut_before :: "char \<Rightarrow> string \<Rightarrow> string" where
  \<comment> \<open>the first result of \<open>strings.Cut(s, sep)\<close>\<close>
  "cut_before sep s = takeWhile (\<lambda>c. c \<noteq> sep) s"

definition cut_after :: "char \<Rightarrow> string \<Rightarrow> string" where
  \<comment> \<open>the second result of \<open>strings.Cut(s, sep)\<close>\<close>
  "cut_after sep s = drop 1 (dropWhile (\<lambda>c. c \<noteq> sep) s)"

text \<open>
  \<open>parseQuery\<close> is the loop of the standard library (Go 1.17 and later, where a pair
  with a semicolon is an error): it cuts the query at every \<open>&\<close>, skips the empty
  pairs, cuts a pair at its first \<open>=\<close>, unescapes both halves, and keeps the first
  error it meets while it goes on with the pairs that follow. \<open>ParseQuery\<close> returns
  the map and that error.
\<close>

lemma length_cut_after: "s \<noteq> [] \<Longrightarrow> length (cut_after sep s) < length s"
proof -
  assume "s \<noteq> []"
  moreover have "length (dropWhile (\<lambda>c. c \<noteq> sep) s) \<le> length s"
    by (rule length_dropWhile_le)
  ultimately show ?thesis
    by (cases s) (auto simp: cut_after_def)
qed

function parseQuery :: "Values \<Rightarrow> go_error option \<Rightarrow> string \<Rightarrow> Values \<times> go_error option" where
  "parseQuery m err query =
     (if query = [] then (m, err)
      else
        let key = cut_before (CHR ''&'') query; rest = cut_after (CHR ''&'') query in
        if CHR '';'' \<in> set key then parseQuery m (Some InvalidSemicolon) rest
        else if key = [] then parseQuery m err rest
        else
          (case QueryUnescape (cut_before (CHR ''='') key) of
             Inl err1 \<Rightarrow> parseQuery m (if err = None then Some err1 else err) rest
           | Inr k \<Rightarrow>
               (case QueryUnescape (cut_after (CHR ''='') key) of
                  Inl err1 \<Rightarrow> parseQuery m (if err = None then Some err1 else err) rest
                | Inr val \<Rightarrow> parseQuery (Add m k val) err rest)))"
  by pat_completeness auto
termination
  by (relation "measure (\<lambda>(m, err, query). length query)") (simp_all add: length_cut_after)

declare parseQuery.simps [simp del]

definition ParseQuery :: "string \<Rightarrow> Values \<times> go_error option" where
  "ParseQuery query = parseQuery [] None query"

subsection \<open>\<open>strings.ToLower\<close>\<close>

definition ascii_lower :: "char \<Rightarrow> char" where
  "ascii_lower c = (if CHR ''A'' \<le> c \<and> c \<le> CHR ''Z'' then char_of (of_char c + (32::nat)) else c)"

definition ToLower :: "(string \<Rightarrow> string) \<Rightarrow> string \<Rightarrow> string" where
  \<comment> \<open>A string of ASCII bytes is lowered byte by byte. Any other string goes through the
      Unicode case tables of the standard library, which are the parameter \<open>unicode_lower\<close>.\<close>
  "ToLower unicode_lower s =
     (if \<forall>c \<in> set s. of_char c < (128::nat) then map ascii_lower s else unicode_lower s)"

section \<open>Formatting verbs of \<open>fmt.Sprintf\<close>\<close>

definition digit_char :: "nat \<Rightarrow> char" where
  "digit_char n = ''0123456789'' ! (n mod 10)"

function itoa :: "nat \<Rightarrow> string" where
  "itoa n = (if n < 10 then [digit_char n] else itoa (n div 10) @ [digit_char (n mod 10)])"
  by pat_completeness auto
termination
  by (relation "measure id") auto

declare itoa.simps [simp del]

definition format_d :: "int \<Rightarrow> string" where
  \<comment> \<open>the verb \<open>%d\<close> on a signed integer\<close>
  "format_d i = (if i < 0 then CHR ''-'' # itoa (nat (- i)) else itoa (nat i))"

text \<open>
  A \<open>float64\<close> is a NaN, an infinity, or a finite value \<open>(-1)\<^sup>s \<sqdot> m \<sqdot> 2\<^sup>e\<close> with a sign bit
  (so that negative zero is a value). Only the decimal rendering of a given value is
  modelled, which is exact arithmetic on \<open>m\<close> and \<open>e\<close>; the rounding of floating-point
  addition and multiplication is not.
\<close>

datatype float64 = Finite bool nat int | Infinity bool | NaN

definition round_half_even :: "nat \<Rightarrow> nat \<Rightarrow> nat" where
  \<comment> \<open>the integer nearest to \<open>n / d\<close>, ties to the even one\<close>
  "round_half_even n d =
     (let q = n div d; r = n mod d
      in if d < 2 * r \<or> (2 * r = d \<and> odd q) then q + 1 else q)"

definition hundredths :: "nat \<Rightarrow> int \<Rightarrow> nat" where
  \<comment> \<open>\<open>m \<sqdot> 2\<^sup>e\<close> in hundredths, rounded as \<open>strconv.FormatFloat(x, 'f', 2, 64)\<close> rounds\<close>
  "hundredths m e =
     (if 0 \<le> e then m * 100 * 2 ^ nat e else round_half_even (m * 100) (2 ^ nat (- e)))"

definition format_2f :: "float64 \<Rightarrow> string" where
  \<comment> \<open>the verb \<open>%.2f\<close>\<close>
  "format_2f x =
     (case x of
        NaN \<Rightarrow> ''NaN''
      | Infinity neg \<Rightarrow> (if neg then ''-Inf'' else ''+Inf'')
      | Finite neg m e \<Rightarrow>
          (let q = hundredths m e
           in (if neg then ''-'' else []) @ itoa (q div 100) @ CHR ''.'' #
              [digit_char (q mod 100 div 10), digit_char (q mod 10)]))"

section \<open>Client, line item and response\<close>

datatype http_result =
    PostFailed go_error
  | ReadFailed go_error
  | Body string

text \<open>
  The field \<open>client\<close> is the HTTP collaborator: what \<open>PostForm(endpoint, values)\<close>
  followed by \<open>ioutil.ReadAll\<close> of the response body gives.
\<close>

record PayPalClient =
  username :: string
  password :: string
  signature :: string
  usesSandbox :: bool
  client :: "string \<Rightarrow> Values \<Rightarrow> http_result"

record PayPalDigitalGood =
  Name :: string
  Amount :: float64
  Quantity :: "16 word"

text \<open>
  The field \<open>Ack\<close> of the response is named \<open>RespAck\<close> here, since the error record
  already has a field \<open>Ack\<close>. \<open>Values\<close> is the raw mapping; a nil map is the empty list.
\<close>

record PayPalResponse =
  RespAck :: string
  CorrelationId :: string
  Timestamp :: string
  Version :: string
  Build :: string
  Values :: Values
  usedSandbox :: bool
  Invnum :: string
  TransactionId :: string

datatype panic = IndexOutOfRange | AssignmentToNilMap | NilPointerDereference

definition CheckoutUrl :: "PayPalResponse \<Rightarrow> panic + string" where
  "CheckoutUrl r =
     (let query = Set [] ''cmd'' ''_express-checkout'' in
      case values_of (Values r) ''TOKEN'' of
        [] \<Rightarrow> Inl IndexOutOfRange
      | token # _ \<Rightarrow>
          (let query = Add query ''token'' token;
               checkoutUrl = (if usedSandbox r then CHECKOUT_SANDBOX_URL else CHECKOUT_PRODUCTION_URL)
           in Inr (checkoutUrl @ ''?'' @ Encode query)))"

text \<open>
  \<open>PerformRequest\<close> changes the map it is given, so the model returns the map as it
  is after the call, then the two results of the Go function: the response pointer
  (\<open>None\<close> for nil) and the error (\<open>None\<close> for nil). \<open>PerformRequest\<close> is the
  function on an allocated map, which is what every operation of the package passes;
  \<open>PerformRequest_call\<close>, after it, is the function on any argument, the nil map too.
  The first two blocks of the function body have a name of their own:
  \<open>add_credentials\<close> is the four calls of \<open>values.Add\<close>, \<open>endpoint_of\<close> the choice of
  the endpoint.
\<close>

definition add_credentials :: "PayPalClient \<Rightarrow> Values \<Rightarrow> Values" where
  "add_credentials pClient values0 =
     (let values = Add values0 ''USER'' (username pClient);
          values = Add values ''PWD'' (password pClient);
          values = Add values ''SIGNATURE'' (signature pClient);
          values = Add values ''VERSION'' NVP_VERSION
      in values)"

definition endpoint_of :: "PayPalClient \<Rightarrow> string" where
  "endpoint_of pClient = (if usesSandbox pClient then NVP_SANDBOX_URL else NVP_PRODUCTION_URL)"

definition PerformRequest ::
  "(string \<Rightarrow> string) \<Rightarrow> PayPalClient \<Rightarrow> Values \<Rightarrow> Values \<times> PayPalResponse option \<times> go_error option" where
  "PerformRequest unicode_lower pClient values0 =
     (let values = add_credentials pClient values0;
          endpoint = endpoint_of pClient
      in case client pClient endpoint values of
           PostFailed err \<Rightarrow> (values, None, Some err)
         | ReadFailed err \<Rightarrow> (values, None, Some err)
         | Body body \<Rightarrow>
             (case ParseQuery body of
                (responseValues, err) \<Rightarrow>
                  (let response = \<lparr>RespAck = [], CorrelationId = [], Timestamp = [], Version = [],
                         Build = [], Values = [], usedSandbox = usesSandbox pClient, Invnum = [],
                         TransactionId = []\<rparr>
                   in if err = None then
                        (let response = response\<lparr>RespAck := Get responseValues ''ACK''\<rparr>;
                             response = response\<lparr>CorrelationId := Get responseValues ''CORRELATIONID''\<rparr>;
                             response = response\<lparr>Timestamp := Get responseValues ''TIMESTAMP''\<rparr>;
                             response = response\<lparr>Version := Get responseValues ''VERSION''\<rparr>;
                             response = response\<lparr>Build := Get responseValues ''2975009''\<rparr>;
                             response = response\<lparr>Values := responseValues\<rparr>;
                             response = response\<lparr>Invnum := Get responseValues ''PAYMENTREQUEST_0_INVNUM''\<rparr>;
                             response = response\<lparr>TransactionId :=
                               Get responseValues ''PAYMENTREQUEST_0_TRANSACTIONID''\<rparr>;
                             errorCode = Get responseValues ''L_ERRORCODE0''
                         in if errorCode \<noteq> []
                               \<or> ToLower unicode_lower (RespAck response) = ''failure''
                               \<or> ToLower unicode_lower (RespAck response) = ''failurewithwarning''
                            then (values, Some response,
                                  Some (RemoteError \<lparr>Ack = RespAck response, ErrorCode = errorCode,
                                     ShortMessage = Get responseValues ''L_SHORTMESSAGE0'',
                                     LongMessage = Get responseValues ''L_LONGMESSAGE0'',
                                     SeverityCode = Get responseValues ''L_SEVERITYCODE0''\<rparr>))
                            else (values, Some response, None))
                      else (values, Some response, err))))"


section \<open>The sum of the amounts\<close>

text \<open>
  The conversion of an \<open>int16\<close> to \<open>float64\<close> is exact. The addition and the
  multiplication of \<open>float64\<close> round as IEEE 754 says; they are the parameters
  \<open>float64_add\<close> and \<open>float64_mul\<close>. The argument is a pointer to a slice: \<open>None\<close> is
  the nil pointer, which \<open>*goods\<close> dereferences. The result \<open>sum\<close> starts as the zero
  value of its type.
\<close>

definition float64_of_int16 :: "16 word \<Rightarrow> float64" where
  "float64_of_int16 q = Finite (sint q < 0) (nat \<bar>sint q\<bar>) 0"

fun sum_goods ::
  "(float64 \<Rightarrow> float64 \<Rightarrow> float64) \<Rightarrow> (float64 \<Rightarrow> float64 \<Rightarrow> float64) \<Rightarrow>
   float64 \<Rightarrow> PayPalDigitalGood list \<Rightarrow> float64" where
  "sum_goods float64_add float64_mul s [] = s"
| "sum_goods float64_add float64_mul s (dg # goods) =
     sum_goods float64_add float64_mul
       (float64_add s (float64_mul (Amount dg) (float64_of_int16 (Quantity dg)))) goods"

definition SumPayPalDigitalGoodAmounts ::
  "(float64 \<Rightarrow> float64 \<Rightarrow> float64) \<Rightarrow> (float64 \<Rightarrow> float64 \<Rightarrow> float64) \<Rightarrow>
   PayPalDigitalGood list option \<Rightarrow> panic + float64" where
  "SumPayPalDigitalGoodAmounts float64_add float64_mul goods =
     (case goods of
        None \<Rightarrow> Inl NilPointerDereference
      | Some gs \<Rightarrow> Inr (sum_goods float64_add float64_mul (Finite False 0 0) gs))"

section \<open>Operations\<close>

function add_goods :: "Values \<Rightarrow> PayPalDigitalGood list \<Rightarrow> nat \<Rightarrow> Values" where
  "add_goods values goods i =
     (if i < length goods then
        (let good = goods ! i;
             values = Add values (''L_PAYMENTREQUEST_0_NAME'' @ itoa i) (Name good);
             values = Add values (''L_PAYMENTREQUEST_0_AMT'' @ itoa i) (format_2f (Amount good));
             values = Add values (''L_PAYMENTREQUEST_0_QTY'' @ itoa i) (format_d (sint (Quantity good)));
             values = Add values (''L_PAYMENTREQUEST_0_ITEMCATEGORY'' @ itoa i) ''Digital''
         in add_goods values goods (Suc i))
      else values)"
  by pat_completeness auto
termination
  by (relation "measure (\<lambda>(values, goods, i). length goods - i)") auto

declare add_goods.simps [simp del]

definition SetExpressCheckoutDigitalGoods_values ::
  "float64 \<Rightarrow> string \<Rightarrow> string \<Rightarrow> string \<Rightarrow> string \<Rightarrow> PayPalDigitalGood list \<Rightarrow> Values" where
  \<comment> \<open>the map \<open>values\<close> when the loop over the goods has ended\<close>
  "SetExpressCheckoutDigitalGoods_values paymentAmount currencyCode returnURL cancelURL invnum goods =
     (let values = Set [] ''METHOD'' ''SetExpressCheckout'';
          values = Add values ''PAYMENTREQUEST_0_AMT'' (format_2f paymentAmount);
          values = Add values ''PAYMENTREQUEST_0_PAYMENTACTION'' ''Sale'';
          values = Add values ''PAYMENTREQUEST_0_CURRENCYCODE'' currencyCode;
          values = Add values ''PAYMENTREQUEST_0_INVNUM'' invnum;
          values = Add values ''RETURNURL'' returnURL;
          values = Add values ''CANCELURL'' cancelURL;
          values = Add values ''REQCONFIRMSHIPPING'' ''0'';
          values = Add values ''NOSHIPPING'' ''1'';
          values = Add values ''SOLUTIONTYPE'' ''Sole''
      in add_goods values goods 0)"

definition SetExpressCheckoutDigitalGoods ::
  "(string \<Rightarrow> string) \<Rightarrow> PayPalClient \<Rightarrow> float64 \<Rightarrow> string \<Rightarrow> string \<Rightarrow> string \<Rightarrow> string \<Rightarrow>
   PayPalDigitalGood list \<Rightarrow> Values \<times> PayPalResponse option \<times> go_error option" where
  "SetExpressCheckoutDigitalGoods unicode_lower pClient paymentAmount currencyCode returnURL cancelURL
       invnum goods =
     PerformRequest unicode_lower pClient
       (SetExpressCheckoutDigitalGoods_values paymentAmount currencyCode returnURL cancelURL invnum goods)"

definition DoExpressCheckoutPayment ::
  "(string \<Rightarrow> string) \<Rightarrow> PayPalClient \<Rightarrow> string \<Rightarrow> string \<Rightarrow> string \<Rightarrow> string \<Rightarrow> float64 \<Rightarrow>
   Values \<times> PayPalResponse option \<times> go_error option" where
  "DoExpressCheckoutPayment unicode_lower pClient token payerId paymentType currencyCode
       finalPaymentAmount =
     (let values = Set [] ''METHOD'' ''DoExpressCheckoutPayment'';
          values = Add values ''TOKEN'' token;
          values = Add values ''PAYERID'' payerId;
          values = Add values ''PAYMENTREQUEST_0_PAYMENTACTION'' paymentType;
          values = Add values ''PAYMENTREQUEST_0_CURRENCYCODE'' currencyCode;
          values = Add values ''PAYMENTREQUEST_0_AMT'' (format_2f finalPaymentAmount)
      in PerformRequest unicode_lower pClient values)"

definition DoExpressCheckoutSale ::
  "(string \<Rightarrow> string) \<Rightarrow> PayPalClient \<Rightarrow> string \<Rightarrow> string \<Rightarrow> string \<Rightarrow> float64 \<Rightarrow>
   Values \<times> PayPalResponse option \<times> go_error option" where
  "DoExpressCheckoutSale unicode_lower pClient token payerId currencyCode finalPaymentAmount =
     DoExpressCheckoutPayment unicode_lower pClient token payerId ''Sale'' currencyCode
       finalPaymentAmount"


section \<open>Vocabulary of the properties\<close>

text \<open>
  A string is formatted with exactly two decimal digits when it is an optional minus
  sign, at least one digit, a point and two digits.
\<close>

definition is_digit :: "char \<Rightarrow> bool" where
  "is_digit c \<longleftrightarrow> CHR ''0'' \<le> c \<and> c \<le> CHR ''9''"

definition has_two_decimals :: "string \<Rightarrow> bool" where
  "has_two_decimals s =
     (case rev s of
        d2 # d1 # dot # ip \<Rightarrow>
          is_digit d2 \<and> is_digit d1 \<and> dot = CHR ''.'' \<and>
          (let ds = rev ip; ds = (if take 1 ds = ''-'' then drop 1 ds else ds)
           in ds \<noteq> [] \<and> list_all is_digit ds)
      | _ \<Rightarrow> False)"

text \<open>
  The four fields that one pass of the loop of \<open>SetExpressCheckoutDigitalGoods\<close> adds
  for the item at index \<open>i\<close>, and the values that a list of fields has under a key.
\<close>

definition item_fields :: "PayPalDigitalGood list \<Rightarrow> nat \<Rightarrow> (string \<times> string) list" where
  "item_fields goods i =
     [(''L_PAYMENTREQUEST_0_NAME'' @ itoa i, Name (goods ! i)),
      (''L_PAYMENTREQUEST_0_AMT'' @ itoa i, format_2f (Amount (goods ! i))),
      (''L_PAYMENTREQUEST_0_QTY'' @ itoa i, format_d (sint (Quantity (goods ! i)))),
      (''L_PAYMENTREQUEST_0_ITEMCATEGORY'' @ itoa i, ''Digital'')]"

definition fields_under :: "string \<Rightarrow> (string \<times> string) list \<Rightarrow> string list" where
  "fields_under key fs = map snd (filter (\<lambda>(k, x). k = key) fs)"

section \<open>Theorems\<close>

text \<open>
  C2: the rendered message of an error is \<open>PayPal Error <code>: <short message>\<close> when
  both the code and the short message are non-empty, otherwise the acknowledgement when
  that is non-empty, otherwise the fixed maintenance message; code 10001 with short
  message Oops renders as \<open>PayPal Error 10001: Oops\<close>.
\<close>

theorem Error_rendering:
  "(ErrorCode e \<noteq> [] \<and> ShortMessage e \<noteq> [] \<longrightarrow>
      Error e = ''PayPal Error '' @ ErrorCode e @ '': '' @ ShortMessage e)
   \<and> (\<not> (ErrorCode e \<noteq> [] \<and> ShortMessage e \<noteq> []) \<and> Ack e \<noteq> [] \<longrightarrow> Error e = Ack e)
   \<and> (\<not> (ErrorCode e \<noteq> [] \<and> ShortMessage e \<noteq> []) \<and> Ack e = [] \<longrightarrow>
      Error e = ''PayPal is undergoing maintenance.'' @ [CHR 0x0A] @ ''Please try again later.'')
   \<and> Error (e\<lparr>ErrorCode := ''10001'', ShortMessage := ''Oops''\<rparr>) = ''PayPal Error 10001: Oops''"
  by (simp add: Error_def maintenance_message_def)

theorem Error_rendering_witness:
  "Error \<lparr>Ack = ''Failure'', ErrorCode = ''10001'', ShortMessage = ''Oops'',
          LongMessage = [], SeverityCode = []\<rparr> = ''PayPal Error 10001: Oops''
   \<and> Error \<lparr>Ack = ''Failure'', ErrorCode = [], ShortMessage = [],
          LongMessage = [], SeverityCode = []\<rparr> = ''Failure''
   \<and> Error \<lparr>Ack = [], ErrorCode = ''10001'', ShortMessage = [],
          LongMessage = [], SeverityCode = []\<rparr>
       = ''PayPal is undergoing maintenance.'' @ [CHR 0x0A] @ ''Please try again later.''"
  using Error_rendering [of "\<lparr>Ack = ''Failure'', ErrorCode = ''10001'', ShortMessage = ''Oops'',
          LongMessage = [], SeverityCode = []\<rparr>"]
    Error_rendering [of "\<lparr>Ack = ''Failure'', ErrorCode = [], ShortMessage = [],
          LongMessage = [], SeverityCode = []\<rparr>"]
    Error_rendering [of "\<lparr>Ack = [], ErrorCode = ''10001'', ShortMessage = [],
          LongMessage = [], SeverityCode = []\<rparr>"]
  by simp

subsection \<open>Reading and writing the multimap\<close>

lemma values_of_Add:
  "values_of (Add v k x) key = (if key = k then values_of v k @ [x] else values_of v key)"
  by (simp add: values_of_def Add_def update_conv')

lemma values_of_Set:
  "values_of (Set v k x) key = (if key = k then [x] else values_of v key)"
  by (simp add: values_of_def Set_def update_conv')

lemma keys_Add: "set (map fst (Add v k x)) = insert k (set (map fst v))"
  by (simp add: Add_def dom_update)


lemma Encode_checkout:
  "Encode (Add (Set [] ''cmd'' ''_express-checkout'') ''token'' token)
     = ''cmd=_express-checkout&token='' @ QueryEscape token"
  by (simp add: Encode_def Add_def Set_def values_of_def shouldEscape_def isalnum_def)

lemma QueryEscape_unreserved: "\<forall>c \<in> set s. \<not> shouldEscape c \<Longrightarrow> QueryEscape s = s"
  by (induction s) (auto simp: shouldEscape_def isalnum_def)

subsection \<open>Decoding the response\<close>

text \<open>
  C1: when the body parses, the call returns an error exactly when \<open>L_ERRORCODE0\<close> is
  non-empty or the lowercased \<open>ACK\<close> is \<open>failure\<close> or \<open>failurewithwarning\<close>; the error
  then carries the \<open>ACK\<close> value as received and the four fields of index 0, and the
  populated response is returned with it.
\<close>

theorem PerformRequest_error_classification:
  assumes post: "client pClient (endpoint_of pClient) (add_credentials pClient params) = Body body"
    and parsed: "ParseQuery body = (rv, None)"
  shows "(snd (snd (PerformRequest U pClient params)) \<noteq> None \<longleftrightarrow>
            Get rv ''L_ERRORCODE0'' \<noteq> [] \<or> ToLower U (Get rv ''ACK'') = ''failure''
            \<or> ToLower U (Get rv ''ACK'') = ''failurewithwarning'')
       \<and> (snd (snd (PerformRequest U pClient params)) \<noteq> None \<longrightarrow>
            snd (snd (PerformRequest U pClient params)) =
              Some (RemoteError \<lparr>Ack = Get rv ''ACK'', ErrorCode = Get rv ''L_ERRORCODE0'',
                ShortMessage = Get rv ''L_SHORTMESSAGE0'', LongMessage = Get rv ''L_LONGMESSAGE0'',
                SeverityCode = Get rv ''L_SEVERITYCODE0''\<rparr>))
       \<and> fst (snd (PerformRequest U pClient params)) =
            Some \<lparr>RespAck = Get rv ''ACK'', CorrelationId = Get rv ''CORRELATIONID'',
              Timestamp = Get rv ''TIMESTAMP'', Version = Get rv ''VERSION'',
              Build = Get rv ''2975009'', Values = rv, usedSandbox = usesSandbox pClient,
              Invnum = Get rv ''PAYMENTREQUEST_0_INVNUM'',
              TransactionId = Get rv ''PAYMENTREQUEST_0_TRANSACTIONID''\<rparr>"
  using post parsed by (simp add: PerformRequest_def Let_def)

theorem PerformRequest_error_classification_witness:
  "snd (PerformRequest (\<lambda>s. s)
      \<lparr>username = ''u'', password = ''p'', signature = ''s'', usesSandbox = True,
        client = (\<lambda>endpoint v. Body ''ACK=FAILURE&L_SHORTMESSAGE0=Oops'')\<rparr> [])
   = (Some \<lparr>RespAck = ''FAILURE'', CorrelationId = [], Timestamp = [], Version = [], Build = [],
        Values = [(''ACK'', [''FAILURE'']), (''L_SHORTMESSAGE0'', [''Oops''])], usedSandbox = True,
        Invnum = [], TransactionId = []\<rparr>,
      Some (RemoteError \<lparr>Ack = ''FAILURE'', ErrorCode = [], ShortMessage = ''Oops'',
        LongMessage = [], SeverityCode = []\<rparr>))"
proof -
  have parsed: "ParseQuery ''ACK=FAILURE&L_SHORTMESSAGE0=Oops''
      = ([(''ACK'', [''FAILURE'']), (''L_SHORTMESSAGE0'', [''Oops''])], None)"
    by code_simp
  have lower: "map ascii_lower ''FAILURE'' = ''failure''"
    by code_simp
  show ?thesis
    using PerformRequest_error_classification [where U = "\<lambda>s. s" and params = "[]", OF _ parsed,
        of "\<lparr>username = ''u'', password = ''p'', signature = ''s'', usesSandbox = True,
            client = (\<lambda>endpoint v. Body ''ACK=FAILURE&L_SHORTMESSAGE0=Oops'')\<rparr>"] lower
    by (simp add: Get_def values_of_def ToLower_def prod_eq_iff)
qed

text \<open>
  C6: when the body does not parse, the call returns the parse error, with a response
  that is not nil and has only its environment flag set.
\<close>

theorem PerformRequest_parse_failure:
  assumes post: "client pClient (endpoint_of pClient) (add_credentials pClient params) = Body body"
    and failed: "ParseQuery body = (rv, Some err)"
  shows "snd (PerformRequest U pClient params) =
           (Some \<lparr>RespAck = [], CorrelationId = [], Timestamp = [], Version = [],
              Build = [], Values = [], usedSandbox = usesSandbox pClient, Invnum = [],
              TransactionId = []\<rparr>,
            Some err)"
  using post failed by (simp add: PerformRequest_def Let_def)

theorem PerformRequest_parse_failure_witness:
  "snd (PerformRequest (\<lambda>s. s)
      \<lparr>username = ''u'', password = ''p'', signature = ''s'', usesSandbox = False,
        client = (\<lambda>endpoint v. Body ''ACK=Success&TOKEN=%zz'')\<rparr> [])
   = (Some \<lparr>RespAck = [], CorrelationId = [], Timestamp = [], Version = [], Build = [],
        Values = [], usedSandbox = False, Invnum = [], TransactionId = []\<rparr>,
      Some (EscapeError ''%zz''))"
proof -
  have failed: "ParseQuery ''ACK=Success&TOKEN=%zz''
      = ([(''ACK'', [''Success''])], Some (EscapeError ''%zz''))"
    by code_simp
  show ?thesis
    using PerformRequest_parse_failure [where U = "\<lambda>s. s" and params = "[]", OF _ failed,
        of "\<lparr>username = ''u'', password = ''p'', signature = ''s'', usesSandbox = False,
            client = (\<lambda>endpoint v. Body ''ACK=Success&TOKEN=%zz'')\<rparr>"]
    by simp
qed



subsection \<open>Credentials\<close>




subsection \<open>The checkout redirect\<close>

text \<open>
  C5: without a \<open>TOKEN\<close> entry in the raw mapping \<open>CheckoutUrl\<close> fails with an index out
  of range, so it returns a value only when the entry is there.
\<close>

theorem CheckoutUrl_without_token:
  "(map_of (Values r) ''TOKEN'' = None \<longrightarrow> CheckoutUrl r = Inl IndexOutOfRange)
   \<and> (\<forall>u. CheckoutUrl r = Inr u \<longrightarrow> map_of (Values r) ''TOKEN'' \<noteq> None)"
  by (auto simp: CheckoutUrl_def values_of_def split: option.splits list.splits)

theorem CheckoutUrl_without_token_witness:
  "map_of (Values \<lparr>RespAck = ''Success'', CorrelationId = [], Timestamp = [], Version = [],
       Build = [], Values = [(''ACK'', [''Success''])], usedSandbox = True, Invnum = [],
       TransactionId = []\<rparr>) ''TOKEN'' = None
   \<and> CheckoutUrl \<lparr>RespAck = ''Success'', CorrelationId = [], Timestamp = [], Version = [],
       Build = [], Values = [(''ACK'', [''Success''])], usedSandbox = True, Invnum = [],
       TransactionId = []\<rparr> = Inl IndexOutOfRange
   \<and> CheckoutUrl \<lparr>RespAck = ''Success'', CorrelationId = [], Timestamp = [], Version = [],
       Build = [], Values = [(''ACK'', [''Success'']), (''TOKEN'', [''EC-1''])], usedSandbox = False,
       Invnum = [], TransactionId = []\<rparr>
     = Inr ''https://www.paypal.com/cgi-bin/webscr?cmd=_express-checkout&token=EC-1''
   \<and> map_of (Values \<lparr>RespAck = ''Success'', CorrelationId = [], Timestamp = [], Version = [],
       Build = [], Values = [(''ACK'', [''Success'']), (''TOKEN'', [''EC-1''])], usedSandbox = False,
       Invnum = [], TransactionId = []\<rparr>) ''TOKEN'' \<noteq> None"
proof -
  have url: "CheckoutUrl \<lparr>RespAck = ''Success'', CorrelationId = [], Timestamp = [], Version = [],
       Build = [], Values = [(''ACK'', [''Success'']), (''TOKEN'', [''EC-1''])], usedSandbox = False,
       Invnum = [], TransactionId = []\<rparr>
     = Inr ''https://www.paypal.com/cgi-bin/webscr?cmd=_express-checkout&token=EC-1''"
    by (simp add: CheckoutUrl_def values_of_def Encode_checkout CHECKOUT_PRODUCTION_URL_def
        shouldEscape_def isalnum_def)
  show ?thesis
    using CheckoutUrl_without_token [of "\<lparr>RespAck = ''Success'', CorrelationId = [],
         Timestamp = [], Version = [], Build = [], Values = [(''ACK'', [''Success''])],
         usedSandbox = True, Invnum = [], TransactionId = []\<rparr>"]
      CheckoutUrl_without_token [of "\<lparr>RespAck = ''Success'', CorrelationId = [],
         Timestamp = [], Version = [], Build = [],
         Values = [(''ACK'', [''Success'']), (''TOKEN'', [''EC-1''])],
         usedSandbox = False, Invnum = [], TransactionId = []\<rparr>"] url
    by simp
qed

text \<open>
  C4, as the claim states it: the URL ends with the token as the raw mapping has it. It
  does not when the token has a byte that \<open>Encode\<close> escapes: the token \<open>EC/1\<close> is
  written \<open>EC%2F1\<close>.
\<close>

theorem CheckoutUrl_raw_token_counterexample:
  "CheckoutUrl \<lparr>RespAck = ''Success'', CorrelationId = [], Timestamp = [], Version = [],
       Build = [], Values = [(''TOKEN'', [''EC/1''])], usedSandbox = True, Invnum = [],
       TransactionId = []\<rparr>
     = Inr ''https://www.sandbox.paypal.com/cgi-bin/webscr?cmd=_express-checkout&token=EC%2F1''
   \<and> CheckoutUrl \<lparr>RespAck = ''Success'', CorrelationId = [], Timestamp = [], Version = [],
       Build = [], Values = [(''TOKEN'', [''EC/1''])], usedSandbox = True, Invnum = [],
       TransactionId = []\<rparr>
     \<noteq> Inr (''https://www.sandbox.paypal.com/cgi-bin/webscr'' @ ''?cmd=_express-checkout&token=''
            @ ''EC/1'')"
  by (simp add: CheckoutUrl_def values_of_def Encode_checkout CHECKOUT_SANDBOX_URL_def
      shouldEscape_def isalnum_def upperhex_def)

text \<open>
  C4, amended: when the raw mapping has a value under \<open>TOKEN\<close>, \<open>CheckoutUrl\<close> returns the
  checkout host of the recorded environment, then \<open>?cmd=_express-checkout&token=\<close>, then
  the first such value query-escaped; that is the value itself when it has only letters,
  digits and the bytes \<open>- _ . ~\<close>, as \<open>EC-1\<close> has.
\<close>

theorem CheckoutUrl_escaped_token:
  assumes "values_of (Values r) ''TOKEN'' = token # others"
  shows "CheckoutUrl r =
           Inr ((if usedSandbox r then ''https://www.sandbox.paypal.com/cgi-bin/webscr''
                 else ''https://www.paypal.com/cgi-bin/webscr'')
                @ ''?cmd=_express-checkout&token='' @ QueryEscape token)
       \<and> ((\<forall>c \<in> set token. isalnum c \<or> c \<in> {CHR ''-'', CHR ''_'', CHR ''.'', CHR ''~''}) \<longrightarrow>
            CheckoutUrl r =
              Inr ((if usedSandbox r then ''https://www.sandbox.paypal.com/cgi-bin/webscr''
                    else ''https://www.paypal.com/cgi-bin/webscr'')
                   @ ''?cmd=_express-checkout&token='' @ token))"
proof -
  have url: "CheckoutUrl r =
           Inr ((if usedSandbox r then ''https://www.sandbox.paypal.com/cgi-bin/webscr''
                 else ''https://www.paypal.com/cgi-bin/webscr'')
                @ ''?cmd=_express-checkout&token='' @ QueryEscape token)"
    using assms
    by (simp add: CheckoutUrl_def Encode_checkout CHECKOUT_SANDBOX_URL_def
        CHECKOUT_PRODUCTION_URL_def)
  have "QueryEscape token = token"
    if "\<forall>c \<in> set token. isalnum c \<or> c \<in> {CHR ''-'', CHR ''_'', CHR ''.'', CHR ''~''}"
    using that by (intro QueryEscape_unreserved) (simp add: shouldEscape_def)
  with url show ?thesis by simp
qed

theorem CheckoutUrl_escaped_token_witness:
  "CheckoutUrl \<lparr>RespAck = ''Success'', CorrelationId = [], Timestamp = [], Version = [],
       Build = [], Values = [(''TOKEN'', [''EC-1''])], usedSandbox = True, Invnum = [],
       TransactionId = []\<rparr>
     = Inr ''https://www.sandbox.paypal.com/cgi-bin/webscr?cmd=_express-checkout&token=EC-1''
   \<and> CheckoutUrl \<lparr>RespAck = ''Success'', CorrelationId = [], Timestamp = [], Version = [],
       Build = [], Values = [(''TOKEN'', [''EC-1''])], usedSandbox = False, Invnum = [],
       TransactionId = []\<rparr>
     = Inr ''https://www.paypal.com/cgi-bin/webscr?cmd=_express-checkout&token=EC-1''"
  using CheckoutUrl_escaped_token [of "\<lparr>RespAck = ''Success'', CorrelationId = [],
       Timestamp = [], Version = [], Build = [], Values = [(''TOKEN'', [''EC-1''])],
       usedSandbox = True, Invnum = [], TransactionId = []\<rparr>" "''EC-1''" "[]"]
    CheckoutUrl_escaped_token [of "\<lparr>RespAck = ''Success'', CorrelationId = [],
       Timestamp = [], Version = [], Build = [], Values = [(''TOKEN'', [''EC-1''])],
       usedSandbox = False, Invnum = [], TransactionId = []\<rparr>" "''EC-1''" "[]"]
  by (simp add: values_of_def isalnum_def shouldEscape_def)

subsection \<open>Digits and decimal numerals\<close>

lemma digit_table:
  "list_all (\<lambda>k. is_digit (''0123456789'' ! k)
      \<and> list_all (\<lambda>j. ''0123456789'' ! k = ''0123456789'' ! j \<longrightarrow> k = j) [0..<10]) [0..<10]"
  by code_simp

lemma is_digit_digit_char: "is_digit (digit_char n)"
proof -
  have "n mod 10 \<in> set [0..<10]" by simp
  with digit_table show ?thesis
    unfolding digit_char_def list_all_iff by blast
qed

lemma digit_char_eq_iff: "digit_char n = digit_char m \<longleftrightarrow> n mod 10 = m mod 10"
proof -
  have "n mod 10 \<in> set [0..<10]" "m mod 10 \<in> set [0..<10]" by simp_all
  with digit_table show ?thesis
    unfolding digit_char_def list_all_iff by metis
qed

lemma itoa_nonempty: "itoa n \<noteq> []"
  by (subst itoa.simps) simp

lemma itoa_digits: "list_all is_digit (itoa n)"
  by (induction n rule: itoa.induct) (subst itoa.simps, simp add: is_digit_digit_char)

lemma itoa_eq_iff: "itoa n = itoa m \<longleftrightarrow> n = m"
proof
  show "itoa n = itoa m \<Longrightarrow> n = m"
  proof (induction n arbitrary: m rule: itoa.induct)
    case (1 n)
    show ?case
    proof (cases "n < 10")
      case small_n: True
      show ?thesis
      proof (cases "m < 10")
        case True
        with small_n "1.prems" show ?thesis
          by (simp add: itoa.simps [of n] itoa.simps [of m] digit_char_eq_iff)
      next
        case False
        with small_n "1.prems" itoa_nonempty [of "m div 10"] show ?thesis
          by (simp add: itoa.simps [of n] itoa.simps [of m] Cons_eq_append_conv)
      qed
    next
      case big_n: False
      show ?thesis
      proof (cases "m < 10")
        case True
        with big_n "1.prems" itoa_nonempty [of "n div 10"] show ?thesis
          by (simp add: itoa.simps [of n] itoa.simps [of m] append_eq_Cons_conv)
      next
        case False
        with big_n "1.prems" have "itoa (n div 10) = itoa (m div 10)" "n mod 10 = m mod 10"
          by (simp_all add: itoa.simps [of n] itoa.simps [of m] digit_char_eq_iff)
        with "1.IH" [OF big_n] have "n div 10 = m div 10" "n mod 10 = m mod 10" by simp_all
        then show ?thesis by (metis div_mult_mod_eq)
      qed
    qed
  qed
qed simp

lemma has_two_decimals_Finite: "has_two_decimals (format_2f (Finite neg m e))"
proof -
  have "take 1 (itoa k) \<noteq> ''-''" for k
    using itoa_digits [of k] itoa_nonempty [of k]
    by (cases "itoa k") (auto simp: is_digit_def)
  then show ?thesis
    by (simp add: has_two_decimals_def format_2f_def Let_def is_digit_digit_char
        itoa_nonempty itoa_digits)
qed

lemma values_of_Nil: "values_of [] key = []"
  by (simp add: values_of_def)

lemma under_append: "fields_under key (xs @ ys) = fields_under key xs @ fields_under key ys"
  by (simp add: fields_under_def)

lemma values_of_add_goods:
  "values_of (add_goods vs goods i) key =
     values_of vs key @ fields_under key (concat (map (item_fields goods) [i..<length goods]))"
proof (induction vs goods i rule: add_goods.induct)
  case (1 vs goods i)
  show ?case
  proof (cases "i < length goods")
    case True
    then have "[i..<length goods] = i # [Suc i..<length goods]"
      by (rule upt_conv_Cons)
    with True "1.IH" [OF True refl refl refl refl refl] show ?thesis
      by (subst add_goods.simps)
         (simp add: Let_def values_of_Add under_append, simp add: fields_under_def item_fields_def)
  next
    case False
    then show ?thesis
      by (subst add_goods.simps) (simp add: fields_under_def)
  qed
qed

lemma under_item_fields:
  "fields_under (''L_PAYMENTREQUEST_0_NAME'' @ itoa i) (item_fields goods j)
     = (if j = i then [Name (goods ! i)] else [])"
  "fields_under (''L_PAYMENTREQUEST_0_AMT'' @ itoa i) (item_fields goods j)
     = (if j = i then [format_2f (Amount (goods ! i))] else [])"
  "fields_under (''L_PAYMENTREQUEST_0_QTY'' @ itoa i) (item_fields goods j)
     = (if j = i then [format_d (sint (Quantity (goods ! i)))] else [])"
  "fields_under (''L_PAYMENTREQUEST_0_ITEMCATEGORY'' @ itoa i) (item_fields goods j)
     = (if j = i then [''Digital''] else [])"
  by (auto simp: fields_under_def item_fields_def itoa_eq_iff)

lemma under_concat: "fields_under key (concat xss) = concat (map (fields_under key) xss)"
  by (induction xss) (simp_all add: fields_under_def)

lemma concat_single:
  assumes "i < n" and "\<And>j. f j = (if j = i then [x] else [])"
  shows "concat (map f [0..<n]) = [x]"
  using assms(1) by (induction n) (auto simp: assms(2) less_Suc_eq)

lemma keys_Set: "set (map fst (Set v k x)) = insert k (set (map fst v))"
  by (simp add: Set_def dom_update)

lemma keys_add_goods:
  "set (map fst (add_goods vs goods i)) =
     set (map fst vs) \<union> (\<Union>j \<in> {i..<length goods}. set (map fst (item_fields goods j)))"
proof (induction vs goods i rule: add_goods.induct)
  case (1 vs goods i)
  show ?case
  proof (cases "i < length goods")
    case True
    then have split: "{i..<length goods} = insert i {Suc i..<length goods}"
      by auto
    have "set (map fst (add_goods vs goods i)) =
        insert (''L_PAYMENTREQUEST_0_ITEMCATEGORY'' @ itoa i)
         (insert (''L_PAYMENTREQUEST_0_QTY'' @ itoa i)
           (insert (''L_PAYMENTREQUEST_0_AMT'' @ itoa i)
             (insert (''L_PAYMENTREQUEST_0_NAME'' @ itoa i) (set (map fst vs)))))
        \<union> (\<Union>j \<in> {Suc i..<length goods}. set (map fst (item_fields goods j)))"
      using True "1.IH" [OF True refl refl refl refl refl]
      by (subst add_goods.simps) (simp only: Let_def keys_Add if_True)
    also have "\<dots> = set (map fst vs)
        \<union> (\<Union>j \<in> {i..<length goods}. set (map fst (item_fields goods j)))"
      unfolding split by (auto simp: item_fields_def)
    finally show ?thesis .
  next
    case False
    then show ?thesis
      by (subst add_goods.simps) simp
  qed
qed

lemma under_absent: "key \<notin> fst ` set fs \<Longrightarrow> fields_under key fs = []"
  by (induction fs) (auto simp: fields_under_def)

lemma values_of_item_key:
  assumes "i < length goods"
    and "\<And>j. fields_under key (item_fields goods j) = (if j = i then [x] else [])"
  shows "fields_under key (concat (map (item_fields goods) [0..<length goods])) = [x]"
proof -
  have "concat (map (\<lambda>j. fields_under key (item_fields goods j)) [0..<length goods]) = [x]"
    using assms by (rule concat_single)
  then show ?thesis
    by (simp add: under_concat comp_def)
qed

subsection \<open>The fields of a digital-goods checkout\<close>

text \<open>
  C3, as the claim states it: every amount is written with exactly two decimal digits.
  An amount that is not a number is written \<open>NaN\<close>.
\<close>

theorem SetExpressCheckoutDigitalGoods_NaN_counterexample:
  "values_of (SetExpressCheckoutDigitalGoods_values (Finite False 1 0) ''USD'' ''https://r'' ''https://c''
      ''inv'' [\<lparr>Name = ''song'', Amount = NaN, Quantity = 1\<rparr>]) ''L_PAYMENTREQUEST_0_AMT0''
     = [''NaN'']
   \<and> \<not> has_two_decimals ''NaN''"
  by code_simp

text \<open>
  C3, amended: the parameter set that \<open>SetExpressCheckoutDigitalGoods\<close> submits has,
  for each index \<open>i\<close> below the number of goods, exactly one value under each of
  \<open>L_PAYMENTREQUEST_0_NAMEi\<close>, \<open>L_PAYMENTREQUEST_0_AMTi\<close>, \<open>L_PAYMENTREQUEST_0_QTYi\<close> and
  \<open>L_PAYMENTREQUEST_0_ITEMCATEGORYi\<close>: the name, the amount under the verb \<open>%.2f\<close>, the
  quantity in decimal, and \<open>Digital\<close>. Its keys are the ten fixed ones and these. The
  total is under \<open>PAYMENTREQUEST_0_AMT\<close>, under the same verb. Every finite amount is
  written with exactly two decimal digits, and 1 is written \<open>1.00\<close>.
\<close>

theorem SetExpressCheckoutDigitalGoods_item_fields:
  "(let vs = SetExpressCheckoutDigitalGoods_values paymentAmount currencyCode returnURL cancelURL
               invnum goods
    in SetExpressCheckoutDigitalGoods U pClient paymentAmount currencyCode returnURL cancelURL
           invnum goods = PerformRequest U pClient vs
       \<and> (\<forall>i < length goods.
             values_of vs (''L_PAYMENTREQUEST_0_NAME'' @ itoa i) = [Name (goods ! i)]
           \<and> values_of vs (''L_PAYMENTREQUEST_0_AMT'' @ itoa i) = [format_2f (Amount (goods ! i))]
           \<and> values_of vs (''L_PAYMENTREQUEST_0_QTY'' @ itoa i)
               = [format_d (sint (Quantity (goods ! i)))]
           \<and> values_of vs (''L_PAYMENTREQUEST_0_ITEMCATEGORY'' @ itoa i) = [''Digital''])
       \<and> set (map fst vs) =
           {''METHOD'', ''PAYMENTREQUEST_0_AMT'', ''PAYMENTREQUEST_0_PAYMENTACTION'',
            ''PAYMENTREQUEST_0_CURRENCYCODE'', ''PAYMENTREQUEST_0_INVNUM'', ''RETURNURL'',
            ''CANCELURL'', ''REQCONFIRMSHIPPING'', ''NOSHIPPING'', ''SOLUTIONTYPE''}
           \<union> (\<Union>i \<in> {0..<length goods}.
                 {''L_PAYMENTREQUEST_0_NAME'' @ itoa i, ''L_PAYMENTREQUEST_0_AMT'' @ itoa i,
                  ''L_PAYMENTREQUEST_0_QTY'' @ itoa i, ''L_PAYMENTREQUEST_0_ITEMCATEGORY'' @ itoa i})
       \<and> values_of vs ''PAYMENTREQUEST_0_AMT'' = [format_2f paymentAmount])
   \<and> (\<forall>neg m e. has_two_decimals (format_2f (Finite neg m e)))
   \<and> format_2f (Finite False 1 0) = ''1.00''"
proof -
  define base where "base =
     Add (Add (Add (Add (Add (Add (Add (Add (Add (Set [] ''METHOD'' ''SetExpressCheckout'')
       ''PAYMENTREQUEST_0_AMT'' (format_2f paymentAmount))
       ''PAYMENTREQUEST_0_PAYMENTACTION'' ''Sale'')
       ''PAYMENTREQUEST_0_CURRENCYCODE'' currencyCode)
       ''PAYMENTREQUEST_0_INVNUM'' invnum)
       ''RETURNURL'' returnURL)
       ''CANCELURL'' cancelURL)
       ''REQCONFIRMSHIPPING'' ''0'')
       ''NOSHIPPING'' ''1'')
       ''SOLUTIONTYPE'' ''Sole''"
  define vs where "vs = SetExpressCheckoutDigitalGoods_values paymentAmount currencyCode returnURL
    cancelURL invnum goods"
  have vs: "vs = add_goods base goods 0"
    by (simp add: vs_def base_def SetExpressCheckoutDigitalGoods_values_def)
  have base_item: "values_of base (CHR ''L'' # k) = []" for k
    by (simp add: base_def values_of_Add values_of_Set values_of_Nil)
  have items: "values_of vs (''L_PAYMENTREQUEST_0_NAME'' @ itoa i) = [Name (goods ! i)]
           \<and> values_of vs (''L_PAYMENTREQUEST_0_AMT'' @ itoa i) = [format_2f (Amount (goods ! i))]
           \<and> values_of vs (''L_PAYMENTREQUEST_0_QTY'' @ itoa i)
               = [format_d (sint (Quantity (goods ! i)))]
           \<and> values_of vs (''L_PAYMENTREQUEST_0_ITEMCATEGORY'' @ itoa i) = [''Digital'']"
    if "i < length goods" for i
    using values_of_item_key [OF that under_item_fields(1)]
      values_of_item_key [OF that under_item_fields(2)]
      values_of_item_key [OF that under_item_fields(3)]
      values_of_item_key [OF that under_item_fields(4)]
    by (simp add: vs values_of_add_goods base_item)
  have keys: "set (map fst vs) =
           {''METHOD'', ''PAYMENTREQUEST_0_AMT'', ''PAYMENTREQUEST_0_PAYMENTACTION'',
            ''PAYMENTREQUEST_0_CURRENCYCODE'', ''PAYMENTREQUEST_0_INVNUM'', ''RETURNURL'',
            ''CANCELURL'', ''REQCONFIRMSHIPPING'', ''NOSHIPPING'', ''SOLUTIONTYPE''}
           \<union> (\<Union>i \<in> {0..<length goods}.
                 {''L_PAYMENTREQUEST_0_NAME'' @ itoa i, ''L_PAYMENTREQUEST_0_AMT'' @ itoa i,
                  ''L_PAYMENTREQUEST_0_QTY'' @ itoa i, ''L_PAYMENTREQUEST_0_ITEMCATEGORY'' @ itoa i})"
    unfolding vs keys_add_goods base_def keys_Add keys_Set
    by (simp add: item_fields_def insert_commute)
  have "''PAYMENTREQUEST_0_AMT'' \<notin> fst ` set (concat (map (item_fields goods) [0..<length goods]))"
    by (auto simp: item_fields_def)
  then have total: "values_of vs ''PAYMENTREQUEST_0_AMT'' = [format_2f paymentAmount]"
    by (simp add: vs values_of_add_goods under_absent)
       (simp add: base_def values_of_Add values_of_Set values_of_Nil)
  have call: "SetExpressCheckoutDigitalGoods U pClient paymentAmount currencyCode returnURL cancelURL
           invnum goods = PerformRequest U pClient vs"
    by (simp add: SetExpressCheckoutDigitalGoods_def vs_def)
  have one: "format_2f (Finite False 1 0) = ''1.00''"
    by code_simp
  from call items keys total one has_two_decimals_Finite show ?thesis
    unfolding Let_def vs_def by blast
qed

theorem SetExpressCheckoutDigitalGoods_item_fields_witness:
  "(1::nat) < length [\<lparr>Name = ''song'', Amount = Finite False 1 0, Quantity = 1\<rparr>,
                     \<lparr>Name = ''album'', Amount = Finite False 5 (- 1), Quantity = 2\<rparr>]
   \<and> (let vs = SetExpressCheckoutDigitalGoods_values (Finite False 3 1) ''USD'' ''https://r''
                 ''https://c'' ''inv''
                 [\<lparr>Name = ''song'', Amount = Finite False 1 0, Quantity = 1\<rparr>,
                  \<lparr>Name = ''album'', Amount = Finite False 5 (- 1), Quantity = 2\<rparr>]
      in values_of vs ''L_PAYMENTREQUEST_0_NAME1'' = [''album'']
         \<and> values_of vs ''L_PAYMENTREQUEST_0_AMT1'' = [''2.50'']
         \<and> values_of vs ''L_PAYMENTREQUEST_0_QTY1'' = [''2'']
         \<and> values_of vs ''L_PAYMENTREQUEST_0_ITEMCATEGORY1'' = [''Digital'']
         \<and> values_of vs ''PAYMENTREQUEST_0_AMT'' = [''6.00''])"
proof -
  have numerals: "itoa 1 = ''1''" "format_2f (Finite False 5 (- 1)) = ''2.50''"
    "format_2f (Finite False 3 1) = ''6.00''" "format_d 2 = ''2''"
    by code_simp+
  note fields = SetExpressCheckoutDigitalGoods_item_fields
    [where paymentAmount = "Finite False 3 1" and currencyCode = "''USD''"
       and returnURL = "''https://r''" and cancelURL = "''https://c''" and invnum = "''inv''"
       and goods = "[\<lparr>Name = ''song'', Amount = Finite False 1 0, Quantity = 1\<rparr>,
                     \<lparr>Name = ''album'', Amount = Finite False 5 (- 1), Quantity = 2\<rparr>]"
       and U = "\<lambda>s. s"
       and pClient = "\<lparr>username = ''u'', password = ''p'', signature = ''s'',
                       usesSandbox = True, client = (\<lambda>endpoint v. Body [])\<rparr>",
     unfolded Let_def, THEN conjunct1]
  show ?thesis
    using fields [THEN conjunct2, THEN conjunct1, rule_format, of 1]
      fields [THEN conjunct2, THEN conjunct2, THEN conjunct2]
    by (simp add: numerals Let_def flip: One_nat_def)
qed

subsection \<open>The sum of the amounts\<close>

lemma sum_goods_foldl:
  "sum_goods float64_add float64_mul s goods =
     foldl (\<lambda>acc dg. float64_add acc (float64_mul (Amount dg) (float64_of_int16 (Quantity dg))))
       s goods"
  by (induction goods arbitrary: s) simp_all

text \<open>
  C8: for every sequence of line items, \<open>SumPayPalDigitalGoodAmounts\<close> returns the sum
  of the products amount \<open>\<times>\<close> quantity taken from left to right in floating point, from
  zero: every product is added as it is to the sum so far, which goes as it is to the
  next term, so the sum of a sequence with one more item at its end is the sum of the
  sequence plus the product of that item. The empty sequence gives 0.
\<close>

theorem SumPayPalDigitalGoodAmounts_left_fold:
  "SumPayPalDigitalGoodAmounts float64_add float64_mul (Some goods) =
     Inr (foldl (\<lambda>acc dg.
                  float64_add acc (float64_mul (Amount dg) (float64_of_int16 (Quantity dg))))
            (Finite False 0 0) goods)
   \<and> SumPayPalDigitalGoodAmounts float64_add float64_mul (Some (goods @ [dg])) =
       map_sum id
         (\<lambda>acc. float64_add acc (float64_mul (Amount dg) (float64_of_int16 (Quantity dg))))
         (SumPayPalDigitalGoodAmounts float64_add float64_mul (Some goods))
   \<and> SumPayPalDigitalGoodAmounts float64_add float64_mul (Some []) = Inr (Finite False 0 0)"
  by (simp add: SumPayPalDigitalGoodAmounts_def sum_goods_foldl)

theorem SumPayPalDigitalGoodAmounts_left_fold_witness:
  "SumPayPalDigitalGoodAmounts
      (\<lambda>a b. case (a, b) of (Finite _ m _, Finite _ n _) \<Rightarrow> Finite False (m + n) 0 | _ \<Rightarrow> NaN)
      (\<lambda>a b. case (a, b) of (Finite _ m _, Finite _ n _) \<Rightarrow> Finite False (m * n) 0 | _ \<Rightarrow> NaN)
      (Some [\<lparr>Name = ''song'', Amount = Finite False 3 0, Quantity = 2\<rparr>,
             \<lparr>Name = ''album'', Amount = Finite False 5 0, Quantity = 1\<rparr>])
   = Inr (Finite False 11 0)"
  using SumPayPalDigitalGoodAmounts_left_fold
    [of "\<lambda>a b. case (a, b) of (Finite _ m _, Finite _ n _) \<Rightarrow> Finite False (m + n) 0 | _ \<Rightarrow> NaN"
        "\<lambda>a b. case (a, b) of (Finite _ m _, Finite _ n _) \<Rightarrow> Finite False (m * n) 0 | _ \<Rightarrow> NaN"
        "[\<lparr>Name = ''song'', Amount = Finite False 3 0, Quantity = 2\<rparr>,
          \<lparr>Name = ''album'', Amount = Finite False 5 0, Quantity = 1\<rparr>]"]
  by (simp add: float64_of_int16_def)

subsection \<open>Operations\<close>

text \<open>
  C9: \<open>DoExpressCheckoutSale\<close> with a token, a payer id, a currency code and an amount
  is \<open>DoExpressCheckoutPayment\<close> with the same arguments and the payment type \<open>Sale\<close>:
  the same parameter set, the same request, the same results.
\<close>

theorem DoExpressCheckoutSale_is_Payment_Sale:
  "DoExpressCheckoutSale unicode_lower pClient token payerId currencyCode amount =
     DoExpressCheckoutPayment unicode_lower pClient token payerId ''Sale'' currencyCode amount"
  by (simp add: DoExpressCheckoutSale_def)

theorem DoExpressCheckoutSale_is_Payment_Sale_witness:
  "DoExpressCheckoutSale (\<lambda>s. s)
      \<lparr>username = ''u'', password = ''p'', signature = ''s'', usesSandbox = False,
        client = (\<lambda>endpoint v. PostFailed (TransportError endpoint))\<rparr>
      ''EC-1'' ''P1'' ''USD'' (Finite False 5 (- 1))
   = ([(''METHOD'', [''DoExpressCheckoutPayment'']), (''TOKEN'', [''EC-1'']), (''PAYERID'', [''P1'']),
       (''PAYMENTREQUEST_0_PAYMENTACTION'', [''Sale'']), (''PAYMENTREQUEST_0_CURRENCYCODE'', [''USD'']),
       (''PAYMENTREQUEST_0_AMT'', [''2.50'']), (''USER'', [''u'']), (''PWD'', [''p'']),
       (''SIGNATURE'', [''s'']), (''VERSION'', [''84''])],
      None,
      Some (TransportError ''https://api-3t.paypal.com/nvp''))"
proof -
  have amount: "format_2f (Finite False 5 (- 1)) = ''2.50''"
    by code_simp
  have built: "Add (Add (Add (Add (Add (Set [] ''METHOD'' ''DoExpressCheckoutPayment'')
      ''TOKEN'' ''EC-1'') ''PAYERID'' ''P1'') ''PAYMENTREQUEST_0_PAYMENTACTION'' ''Sale'')
      ''PAYMENTREQUEST_0_CURRENCYCODE'' ''USD'') ''PAYMENTREQUEST_0_AMT'' ''2.50''
    = [(''METHOD'', [''DoExpressCheckoutPayment'']), (''TOKEN'', [''EC-1'']), (''PAYERID'', [''P1'']),
       (''PAYMENTREQUEST_0_PAYMENTACTION'', [''Sale'']), (''PAYMENTREQUEST_0_CURRENCYCODE'', [''USD'']),
       (''PAYMENTREQUEST_0_AMT'', [''2.50''])]"
    by code_simp
  have credentials: "Add (Add (Add (Add
      [(''METHOD'', [''DoExpressCheckoutPayment'']), (''TOKEN'', [''EC-1'']), (''PAYERID'', [''P1'']),
       (''PAYMENTREQUEST_0_PAYMENTACTION'', [''Sale'']), (''PAYMENTREQUEST_0_CURRENCYCODE'', [''USD'']),
       (''PAYMENTREQUEST_0_AMT'', [''2.50''])]
      ''USER'' ''u'') ''PWD'' ''p'') ''SIGNATURE'' ''s'') ''VERSION'' ''84''
    = [(''METHOD'', [''DoExpressCheckoutPayment'']), (''TOKEN'', [''EC-1'']), (''PAYERID'', [''P1'']),
       (''PAYMENTREQUEST_0_PAYMENTACTION'', [''Sale'']), (''PAYMENTREQUEST_0_CURRENCYCODE'', [''USD'']),
       (''PAYMENTREQUEST_0_AMT'', [''2.50'']), (''USER'', [''u'']), (''PWD'', [''p'']),
       (''SIGNATURE'', [''s'']), (''VERSION'', [''84''])]"
    by code_simp
  show ?thesis
    unfolding DoExpressCheckoutSale_is_Payment_Sale DoExpressCheckoutPayment_def Let_def amount built
      PerformRequest_def add_credentials_def NVP_VERSION_def
    by (simp only: PayPalClient.simps credentials endpoint_of_def if_False http_result.case
        NVP_PRODUCTION_URL_def)
qed

end
